theory Spec2Isabelle
  imports Complex_Main "HOL-Library.Sublist"
begin

section \<open>Numbers and rows\<close>

text \<open>
  The six numeric columns of a DESeq2 result file are read by pandas as 64-bit floats.
  The program never computes with them: it only compares them with the literals 0.05,
  0.01, 0, 1 and -1. A float is therefore modelled by the number it stands for: a real,
  one of the two infinities, or NaN (which pandas produces for the text NA). A number of
  the file and a literal of the program with the same decimal text are the same float,
  hence the same real here. A comparison with NaN is false, as in Python.
\<close>

datatype pyfloat = NInf | Fin real | PInf | NaN

fun float_lt :: "pyfloat \<Rightarrow> pyfloat \<Rightarrow> bool" where
  "float_lt NaN _ = False"
| "float_lt _ NaN = False"
| "float_lt (Fin a) (Fin b) = (a < b)"
| "float_lt NInf NInf = False"
| "float_lt NInf _ = True"
| "float_lt _ NInf = False"
| "float_lt PInf _ = False"
| "float_lt _ PInf = True"

definition float_gt :: "pyfloat \<Rightarrow> pyfloat \<Rightarrow> bool" where
  "float_gt a b = float_lt b a"

text \<open>
  A row of the data frame after \<open>pd.read_csv(..., header=None, sep=r'\s+')\<close>: the
  columns 0 to 6. The source indexes them by position: \<open>row[0]\<close> is the gene
  identifier, \<open>row[2]\<close> is log2FC and \<open>row[6]\<close> is the adjusted p-value.
\<close>

record row =
  GeneID :: string
  BaseMean :: pyfloat
  log2FC :: pyfloat
  StdErr :: pyfloat
  WaldStats :: pyfloat
  Pvalue :: pyfloat
  Padj :: pyfloat

section \<open>The seven categories, identifier rendering (lines 77 to 118)\<close>

definition padj_low_005 :: "row \<Rightarrow> string" where
  "padj_low_005 r = (if float_lt (Padj r) (Fin 0.05) then GeneID r else [])"

definition log2FC_high_0_padj_low_005 :: "row \<Rightarrow> string" where
  "log2FC_high_0_padj_low_005 r =
     (if float_lt (Padj r) (Fin 0.05) \<and> float_gt (log2FC r) (Fin 0) then GeneID r else [])"

definition log2FC_low_0_and_padj_low005 :: "row \<Rightarrow> string" where
  "log2FC_low_0_and_padj_low005 r =
     (if float_lt (Padj r) (Fin 0.05) \<and> float_lt (log2FC r) (Fin 0) then GeneID r else [])"

definition padj_low_001 :: "row \<Rightarrow> string" where
  "padj_low_001 r = (if float_lt (Padj r) (Fin 0.01) then GeneID r else [])"

definition log2FC_high_1_and_padj_low_001 :: "row \<Rightarrow> string" where
  "log2FC_high_1_and_padj_low_001 r =
     (if float_lt (Padj r) (Fin 0.01) \<and> float_gt (log2FC r) (Fin 1) then GeneID r else [])"

definition log2FC_low_minus_1_and_padj_low_001 :: "row \<Rightarrow> string" where
  "log2FC_low_minus_1_and_padj_low_001 r =
     (if float_lt (Padj r) (Fin 0.01) \<and> float_lt (log2FC r) (Fin (- 1)) then GeneID r else [])"

definition log2FC_higher_1_or_log2FC_low_minus_1_and_padj_001 :: "row \<Rightarrow> string" where
  "log2FC_higher_1_or_log2FC_low_minus_1_and_padj_001 r =
     (if float_lt (Padj r) (Fin 0.01)
         \<and> (float_lt (log2FC r) (Fin (- 1)) \<or> float_gt (log2FC r) (Fin 1))
      then GeneID r else [])"

section \<open>The seven categories, boolean rendering (lines 236 to 262)\<close>

definition b_padj_low_005 :: "row \<Rightarrow> string" where
  "b_padj_low_005 r = (if float_lt (Padj r) (Fin 0.05) then ''True'' else ''False'')"

definition b_log2FC_high_0_padj_low_005 :: "row \<Rightarrow> string" where
  "b_log2FC_high_0_padj_low_005 r =
     (if float_lt (Padj r) (Fin 0.05) \<and> float_gt (log2FC r) (Fin 0)
      then ''True'' else ''False'')"

definition b_log2FC_low_0_and_padj_low005 :: "row \<Rightarrow> string" where
  "b_log2FC_low_0_and_padj_low005 r =
     (if float_lt (Padj r) (Fin 0.05) \<and> float_lt (log2FC r) (Fin 0)
      then ''True'' else ''False'')"

definition b_padj_low_001 :: "row \<Rightarrow> string" where
  "b_padj_low_001 r = (if float_lt (Padj r) (Fin 0.01) then ''True'' else ''False'')"

definition b_log2FC_high_1_and_padj_low_001 :: "row \<Rightarrow> string" where
  "b_log2FC_high_1_and_padj_low_001 r =
     (if float_lt (Padj r) (Fin 0.01) \<and> float_gt (log2FC r) (Fin 1)
      then ''True'' else ''False'')"

definition b_log2FC_low_minus_1_and_padj_low_001 :: "row \<Rightarrow> string" where
  "b_log2FC_low_minus_1_and_padj_low_001 r =
     (if float_lt (Padj r) (Fin 0.01) \<and> float_lt (log2FC r) (Fin (- 1))
      then ''True'' else ''False'')"

definition b_log2FC_higher_1_or_log2FC_low_minus_1_and_padj_001 :: "row \<Rightarrow> string" where
  "b_log2FC_higher_1_or_log2FC_low_minus_1_and_padj_001 r =
     (if float_lt (Padj r) (Fin 0.01)
         \<and> (float_lt (log2FC r) (Fin (- 1)) \<or> float_gt (log2FC r) (Fin 1))
      then ''True'' else ''False'')"

text \<open>The two renderings, in the order of \<open>lista\<close>.\<close>

definition id_renderings :: "(row \<Rightarrow> string) list" where
  "id_renderings =
     [padj_low_005, log2FC_high_0_padj_low_005, log2FC_low_0_and_padj_low005,
      padj_low_001, log2FC_high_1_and_padj_low_001, log2FC_low_minus_1_and_padj_low_001,
      log2FC_higher_1_or_log2FC_low_minus_1_and_padj_001]"

definition b_renderings :: "(row \<Rightarrow> string) list" where
  "b_renderings =
     [b_padj_low_005, b_log2FC_high_0_padj_low_005, b_log2FC_low_0_and_padj_low005,
      b_padj_low_001, b_log2FC_high_1_and_padj_low_001, b_log2FC_low_minus_1_and_padj_low_001,
      b_log2FC_higher_1_or_log2FC_low_minus_1_and_padj_001]"

section \<open>Identifier clean-up (lines 154, 287 and 429)\<close>

text \<open>
  \<open>df.replace({0: 'gene:'}, {0: ''}, regex=True)\<close> rewrites every string of column 0
  with \<open>re.sub('gene:', '', s)\<close>. The pattern has no anchor and no special character,
  so one left-to-right scan deletes each non-overlapping occurrence of the five
  characters and resumes after it.
\<close>

fun re_sub_gene :: "string \<Rightarrow> string" where
  "re_sub_gene [] = []"
| "re_sub_gene (c # cs) =
     (if prefix ''gene:'' (c # cs) then re_sub_gene (drop 5 (c # cs))
      else c # re_sub_gene cs)"

definition clean_row :: "row \<Rightarrow> row" where
  "clean_row r = r\<lparr>GeneID := re_sub_gene (GeneID r)\<rparr>"

definition replace_col0 :: "row list \<Rightarrow> row list" where
  "replace_col0 df = map clean_row df"

section \<open>Species mode and the locus columns (lines 157 to 164, 432 to 439)\<close>

text \<open>The module constant \<open>species\<close> is \<open>"A"\<close> or \<open>"S"\<close>; it is a parameter here.\<close>

datatype species = SpeciesA | SpeciesS

datatype error = ValueError

text \<open>Python's \<open>s.split(sep)\<close> for a one-character separator: every occurrence splits.\<close>

fun py_split :: "char \<Rightarrow> string \<Rightarrow> string list" where
  "py_split sep [] = [[]]"
| "py_split sep (c # cs) =
     (if c = sep then [] # py_split sep cs
      else (case py_split sep cs of [] \<Rightarrow> [[c]] | p # ps \<Rightarrow> (c # p) # ps))"

text \<open>
  \<open>Series.str.split(".", expand=True)\<close>: one table row per identifier, as many columns as
  the longest split has parts, the shorter rows filled up with \<open>None\<close>.
\<close>

definition ncols :: "'a list list \<Rightarrow> nat" where
  "ncols parts = foldr (\<lambda>p n. max (length p) n) parts 0"

definition pad_row :: "nat \<Rightarrow> string list \<Rightarrow> string option list" where
  "pad_row w p = map Some p @ replicate (w - length p) None"

definition str_split_expand :: "string list \<Rightarrow> string option list list" where
  "str_split_expand col =
     (let parts = map (py_split CHR ''.'') col in map (pad_row (ncols parts)) parts)"

text \<open>
  \<open>df[[7, 8]] = table\<close>: pandas raises \<open>ValueError\<close> ("Columns must be same length as
  key") unless the table has exactly two columns; otherwise column 7 receives the first
  and column 8 the second.
\<close>

definition setitem_7_8 ::
  "string option list list \<Rightarrow> error + (string option \<times> string option) list" where
  "setitem_7_8 table =
     (if ncols table \<noteq> 2 then Inl ValueError
      else Inr (map (\<lambda>p. (p ! 0, p ! 1)) table))"

text \<open>
  Columns 7 and 8 from the cleaned column 0: the split under \<open>"S"\<close>, two copies of the
  identifier otherwise.
\<close>

definition locus_cols ::
  "species \<Rightarrow> string list \<Rightarrow> error + (string option \<times> string option) list" where
  "locus_cols sp col =
     (case sp of
        SpeciesS \<Rightarrow> setitem_7_8 (str_split_expand col)
      | SpeciesA \<Rightarrow> Inr (map (\<lambda>c. (Some c, Some c)) col))"

text \<open>
  The join key of an identifier when \<open>species = "A"\<close>: the cleaned \<open>GeneID\<close> itself
  (the merge is \<open>on=Accession\<close>).
\<close>

definition normalize_direct :: "string \<Rightarrow> string" where
  "normalize_direct gene_id = re_sub_gene gene_id"

section \<open>The left join\<close>

text \<open>
  The join that \<open>pd.merge(df, annotation_file, on=key, how='left')\<close> computes once it
  has accepted the key columns: the rows of \<open>df\<close> in their order; each is paired with
  every annotation row of the same key, in the annotation's order, or once with no
  annotation (all annotation columns NaN) when no key matches. The annotation table is a
  list of keys with their remaining columns, which are opaque.
\<close>

definition merge_left ::
  "('r \<Rightarrow> 'k) \<Rightarrow> 'r list \<Rightarrow> ('k \<times> 'a) list \<Rightarrow> ('r \<times> 'a option) list" where
  "merge_left key df annotation_file =
     concat (map (\<lambda>l.
        (case filter (\<lambda>a. fst a = key l) annotation_file of
           [] \<Rightarrow> [(l, None)]
         | ms \<Rightarrow> map (\<lambda>a. (l, Some (snd a))) ms)) df)"

section \<open>Writing a frame out and reading it back (lines 181 to 195, 448 to 458)\<close>

text \<open>
  Before each merge the frame is written with \<open>to_csv(sep='\t')\<close> and read again with
  \<open>pd.read_csv(sep='\t')\<close>. A string cell is written as it is and a missing cell as
  the empty field. On the way back pandas chooses a type for each column from its
  fields: a column whose fields are all numbers or missing-value markers becomes a
  numeric column, a column of \<open>true\<close>/\<open>false\<close> words becomes a column of booleans, and
  any other column stays a column of strings in which the missing-value markers are NaN.

  The fields of an identifier column have no white space (they come from lines split on
  white space). A number is recognised by its notation: a sign, digits, a fraction, an
  exponent, or one of the words for infinity; the 64-bit range of integers and the range
  of floats are not part of the model.
\<close>

definition token :: "string option \<Rightarrow> string" where
  "token c = (case c of None \<Rightarrow> [] | Some s \<Rightarrow> s)"

text \<open>The default missing-value markers of \<open>read_csv\<close>.\<close>

definition na_values :: "string list" where
  "na_values =
     ['''', ''#N/A'', ''#N/A N/A'', ''#NA'', ''-1.#IND'', ''-1.#QNAN'', ''-NaN'', ''-nan'',
      ''1.#IND'', ''1.#QNAN'', ''<NA>'', ''N/A'', ''NA'', ''NULL'', ''NaN'', ''None'',
      ''n/a'', ''nan'', ''null'']"

definition na_token :: "string \<Rightarrow> bool" where
  "na_token t = (t \<in> set na_values)"

definition is_digit :: "char \<Rightarrow> bool" where
  "is_digit c = (c \<in> set ''0123456789'')"

definition drop_sign :: "string \<Rightarrow> string" where
  "drop_sign t =
     (case t of [] \<Rightarrow> [] | c # cs \<Rightarrow> if c = CHR ''+'' \<or> c = CHR ''-'' then cs else t)"

definition int_token :: "string \<Rightarrow> bool" where
  "int_token t = (drop_sign t \<noteq> [] \<and> list_all is_digit (drop_sign t))"

definition lower :: "char \<Rightarrow> char" where
  "lower c =
     (case map_of (zip ''ABCDEFGHIJKLMNOPQRSTUVWXYZ'' ''abcdefghijklmnopqrstuvwxyz'') c of
        None \<Rightarrow> c | Some l \<Rightarrow> l)"

text \<open>
  A float: digits with an optional point among them, at least one digit, then
  optionally \<open>e\<close> or \<open>E\<close> and an integer; or \<open>inf\<close> or \<open>infinity\<close> with an optional
  sign, in any case of letters. Every integer is also a float.
\<close>

definition float_token :: "string \<Rightarrow> bool" where
  "float_token t =
     (let d = drop_sign t;
          ip = takeWhile is_digit d;
          r1 = dropWhile is_digit d;
          fp = (case r1 of [] \<Rightarrow> [] | c # cs \<Rightarrow>
                  if c = CHR ''.'' then takeWhile is_digit cs else []);
          r2 = (case r1 of [] \<Rightarrow> [] | c # cs \<Rightarrow>
                  if c = CHR ''.'' then dropWhile is_digit cs else r1)
      in ((ip \<noteq> [] \<or> fp \<noteq> [])
            \<and> (case r2 of [] \<Rightarrow> True
                | c # x \<Rightarrow> (c = CHR ''e'' \<or> c = CHR ''E'') \<and> int_token x))
         \<or> map lower (drop_sign t) \<in> set [''inf'', ''infinity''])"

definition bool_token :: "string \<Rightarrow> bool" where
  "bool_token t = (map lower t \<in> set [''true'', ''false''])"

text \<open>
  The type of a column read back, and its cells as far as a merge on strings can tell
  them apart: a string, NaN, or a number or boolean (which equals no string and no NaN).
  A frame without rows is read back with string columns.
\<close>

datatype dtype = Numeric | Boolean | Object

datatype cell = Str string | Missing | Other

definition read_csv_col :: "string option list \<Rightarrow> dtype \<times> cell list" where
  "read_csv_col written =
     (let toks = map token written in
      if toks = [] then (Object, [])
      else if list_all (\<lambda>t. na_token t \<or> float_token t) toks
      then (Numeric, map (\<lambda>t. if na_token t then Missing else Other) toks)
      else if list_all (\<lambda>t. na_token t \<or> bool_token t) toks
      then (if list_ex na_token toks then Object else Boolean,
            map (\<lambda>t. if na_token t then Missing else Other) toks)
      else (Object, map (\<lambda>t. if na_token t then Missing else Str t) toks))"

section \<open>The merge on the key column read back (lines 203 to 209, 463 to 468)\<close>

text \<open>
  The keys of the annotation table are strings or missing; its key column is a column of
  strings, or a numeric column when the table has rows and every key is missing.
  \<open>pd.merge\<close> raises \<open>ValueError\<close> when both frames have rows and one key column is
  numeric while the other is a column of strings; a boolean column is compared as
  objects. In the merge a NaN key matches a NaN key.
\<close>

definition ann_cell :: "string option \<Rightarrow> cell" where
  "ann_cell k = (case k of None \<Rightarrow> Missing | Some s \<Rightarrow> Str s)"

definition merge_raises :: "dtype \<Rightarrow> cell list \<Rightarrow> string option list \<Rightarrow> bool" where
  "merge_raises dt keys ann_keys =
     (keys \<noteq> [] \<and> ann_keys \<noteq> []
      \<and> (let ann_dt = (if list_all (\<lambda>k. k = None) ann_keys then Numeric else Object)
         in (dt = Numeric \<and> ann_dt = Object) \<or> (dt = Object \<and> ann_dt = Numeric)))"

text \<open>
  The frame \<open>df\<close> with its key column as it was written; the result pairs each row of
  the frame with the annotation found under its key as read back.
\<close>

definition pd_merge_left ::
  "string option list \<Rightarrow> 'r list \<Rightarrow> (string option \<times> 'a) list
     \<Rightarrow> error + ('r \<times> 'a option) list" where
  "pd_merge_left written df annotation_file =
     (let (dt, keys) = read_csv_col written in
      if merge_raises dt keys (map fst annotation_file) then Inl ValueError
      else Inr (map (\<lambda>(lk, a). (fst lk, a))
                  (merge_left snd (zip df keys)
                     (map (\<lambda>(k, v). (ann_cell k, v)) annotation_file))))"

section \<open>First pass: the annotated table (lines 125 to 221)\<close>

text \<open>
  The frame after the clean-up: the seven columns read from the file, columns 7 and 8
  (written out as \<open>loc\<close> and \<open>Last\<close>), and the seven identifier renderings in columns 9
  to 15. A cell of an identifier column is a string or missing (\<open>None\<close>). The program
  writes this frame to a tab-separated file and reads it back before the merge, which is
  on the copy \<open>locus\<close> of \<open>loc\<close> under \<open>"S"\<close> and on \<open>GeneID\<close> under \<open>"A"\<close>. The joined
  rows are given by the rows of the frame as written; what reading back makes of their
  cells is modelled for the key column, on which the merge depends.
\<close>

record arow =
  base :: row
  loc :: "string option"
  Last :: "string option"
  cats :: "string list"

definition annotated_table :: "species \<Rightarrow> row list \<Rightarrow> error + arow list" where
  "annotated_table sp input =
     (let df = replace_col0 input in
      case locus_cols sp (map GeneID df) of
        Inl e \<Rightarrow> Inl e
      | Inr cols \<Rightarrow>
          Inr (map (\<lambda>(r, c). \<lparr>base = r, loc = fst c, Last = snd c,
                                cats = map (\<lambda>f. f r) id_renderings\<rparr>) (zip df cols)))"

definition join_key :: "species \<Rightarrow> arow \<Rightarrow> string option" where
  "join_key sp r = (case sp of SpeciesS \<Rightarrow> loc r | SpeciesA \<Rightarrow> Some (GeneID (base r)))"

definition annotate_file ::
  "species \<Rightarrow> row list \<Rightarrow> (string option \<times> 'a) list \<Rightarrow> error + (arow \<times> 'a option) list" where
  "annotate_file sp input annotation_file =
     (case annotated_table sp input of
        Inl e \<Rightarrow> Inl e
      | Inr df \<Rightarrow> pd_merge_left (map (join_key sp) df) df annotation_file)"

section \<open>Second pass: the expression tables (lines 268 to 391)\<close>

text \<open>Seven tables of two columns, \<open>GeneID\<close> and the flag, in the order of \<open>lista\<close>.\<close>

definition expression_file :: "row list \<Rightarrow> (string \<times> string) list list" where
  "expression_file input =
     (let df = replace_col0 input in map (\<lambda>b. map (\<lambda>r. (GeneID r, b r)) df) b_renderings)"

section \<open>Third pass: the significant-only tables (lines 402 to 526)\<close>

record srow =
  sbase :: row
  locus :: "string option"

definition sig_key :: "species \<Rightarrow> srow \<Rightarrow> string option" where
  "sig_key sp r = (case sp of SpeciesS \<Rightarrow> locus r | SpeciesA \<Rightarrow> Some (GeneID (sbase r)))"

text \<open>
  \<open>dfs.iloc[1:, :]\<close> removes the first row, whatever it holds. Column 8 is dropped
  again and column 7 is written out as \<open>locus\<close>; this is the frame that is written to a
  file and read back. The merged frame is filtered seven times by the comparisons of
  lines 477 to 519.
\<close>

definition sig_table :: "species \<Rightarrow> row list \<Rightarrow> error + srow list" where
  "sig_table sp input =
     (let dfs = replace_col0 (drop 1 input) in
      case locus_cols sp (map GeneID dfs) of
        Inl e \<Rightarrow> Inl e
      | Inr cols \<Rightarrow> Inr (map (\<lambda>(r, c). \<lparr>sbase = r, locus = fst c\<rparr>) (zip dfs cols)))"

definition sig_joined ::
  "species \<Rightarrow> row list \<Rightarrow> (string option \<times> 'a) list \<Rightarrow> error + (srow \<times> 'a option) list" where
  "sig_joined sp input annotation_file =
     (case sig_table sp input of
        Inl e \<Rightarrow> Inl e
      | Inr dfs \<Rightarrow> pd_merge_left (map (sig_key sp) dfs) dfs annotation_file)"

definition sig_filters :: "(row \<Rightarrow> bool) list" where
  "sig_filters =
     [\<lambda>r. float_lt (Padj r) (Fin 0.05),
      \<lambda>r. float_lt (Padj r) (Fin 0.05) \<and> float_gt (log2FC r) (Fin 0),
      \<lambda>r. float_lt (Padj r) (Fin 0.05) \<and> float_lt (log2FC r) (Fin 0),
      \<lambda>r. float_lt (Padj r) (Fin 0.01),
      \<lambda>r. float_lt (Padj r) (Fin 0.01) \<and> float_gt (log2FC r) (Fin 1),
      \<lambda>r. float_lt (Padj r) (Fin 0.01) \<and> float_lt (log2FC r) (Fin (- 1)),
      \<lambda>r. float_lt (Padj r) (Fin 0.01)
            \<and> (float_gt (log2FC r) (Fin 1) \<or> float_lt (log2FC r) (Fin (- 1)))]"

definition sig_file ::
  "species \<Rightarrow> row list \<Rightarrow> (string option \<times> 'a) list
     \<Rightarrow> error + (srow \<times> 'a option) list list" where
  "sig_file sp input annotation_file =
     (case sig_joined sp input annotation_file of
        Inl e \<Rightarrow> Inl e
      | Inr dfs \<Rightarrow> Inr (map (\<lambda>f. filter (\<lambda>j. f (sbase (fst j))) dfs) sig_filters))"

section \<open>Example rows\<close>

definition mk_row :: "string \<Rightarrow> real \<Rightarrow> real \<Rightarrow> row" where
  "mk_row g fc p = \<lparr>GeneID = g, BaseMean = Fin 120.5, log2FC = Fin fc, StdErr = Fin 0.2,
     WaldStats = Fin 6.5, Pvalue = Fin 0.0001, Padj = Fin p\<rparr>"

text \<open>The row of the spec's scenario A.\<close>

definition scenario_A :: row where
  "scenario_A = \<lparr>GeneID = ''gene:Solyc01g000100.2'', BaseMean = Fin 120.5, log2FC = Fin 1.3,
     StdErr = Fin 0.2, WaldStats = Fin 6.5, Pvalue = Fin 0.0001, Padj = Fin 0.002\<rparr>"

text \<open>A file of two rows without a header line, and a small annotation table.\<close>

definition two_rows :: "row list" where
  "two_rows = [mk_row ''gene:AT1G01010'' 2 0.001, mk_row ''gene:AT1G01020'' (- 2) 0.001]"

definition two_rows_S :: "row list" where
  "two_rows_S = [scenario_A, mk_row ''gene:Solyc01g000200.1'' (- 2) 0.001]"

text \<open>Identifiers that are all digits once cleaned, and a file without version suffixes.\<close>

definition digit_rows :: "row list" where
  "digit_rows = [mk_row ''gene:1001'' 2 0.001, mk_row ''gene:1002'' (- 2) 0.001]"

definition no_dot_rows :: "row list" where
  "no_dot_rows =
     [mk_row ''gene:Solyc01g000100'' 2 0.001, mk_row ''gene:Solyc01g000200'' 2 0.001]"

definition small_annotation :: "(string option \<times> string) list" where
  "small_annotation =
     [(Some ''AT1G01020'', ''kinase''), (Some ''Solyc01g000100'', ''transporter'')]"


section \<open>Basic facts\<close>

lemmas id_rendering_defs =
  padj_low_005_def log2FC_high_0_padj_low_005_def log2FC_low_0_and_padj_low005_def
  padj_low_001_def log2FC_high_1_and_padj_low_001_def
  log2FC_low_minus_1_and_padj_low_001_def
  log2FC_higher_1_or_log2FC_low_minus_1_and_padj_001_def

lemmas b_rendering_defs =
  b_padj_low_005_def b_log2FC_high_0_padj_low_005_def b_log2FC_low_0_and_padj_low005_def
  b_padj_low_001_def b_log2FC_high_1_and_padj_low_001_def
  b_log2FC_low_minus_1_and_padj_low_001_def
  b_log2FC_higher_1_or_log2FC_low_minus_1_and_padj_001_def

lemma float_lt_irrefl: "\<not> float_lt x x"
  by (cases x) simp_all

lemma float_lt_Fin_trans: "float_lt x (Fin a) \<Longrightarrow> a \<le> b \<Longrightarrow> float_lt x (Fin b)"
  by (cases x) simp_all

lemma float_gt_Fin_trans: "float_gt x (Fin a) \<Longrightarrow> b \<le> a \<Longrightarrow> float_gt x (Fin b)"
  by (cases x) (simp_all add: float_gt_def)


section \<open>The classifier\<close>

text \<open>
  Claim C1. Each category is strict at its threshold: a row whose adjusted p-value is
  exactly 0.05 is outside categories 1, 2 and 3; exactly 0.01, outside categories 4, 5, 6
  and 7; a log2FC of exactly 0 is outside categories 2 and 3, of exactly 1 outside 5 and 7,
  of exactly -1 outside 6 and 7. Outside means: the identifier rendering is the empty
  string and the boolean rendering is \<open>"False"\<close>.
\<close>

theorem thresholds_are_strict:
  "(Padj r = Fin 0.05 \<longrightarrow>
      padj_low_005 r = [] \<and> log2FC_high_0_padj_low_005 r = []
      \<and> log2FC_low_0_and_padj_low005 r = []
      \<and> b_padj_low_005 r = ''False'' \<and> b_log2FC_high_0_padj_low_005 r = ''False''
      \<and> b_log2FC_low_0_and_padj_low005 r = ''False'')
   \<and> (Padj r = Fin 0.01 \<longrightarrow>
      padj_low_001 r = [] \<and> log2FC_high_1_and_padj_low_001 r = []
      \<and> log2FC_low_minus_1_and_padj_low_001 r = []
      \<and> log2FC_higher_1_or_log2FC_low_minus_1_and_padj_001 r = []
      \<and> b_padj_low_001 r = ''False'' \<and> b_log2FC_high_1_and_padj_low_001 r = ''False''
      \<and> b_log2FC_low_minus_1_and_padj_low_001 r = ''False''
      \<and> b_log2FC_higher_1_or_log2FC_low_minus_1_and_padj_001 r = ''False'')
   \<and> (log2FC r = Fin 0 \<longrightarrow>
      log2FC_high_0_padj_low_005 r = [] \<and> log2FC_low_0_and_padj_low005 r = []
      \<and> b_log2FC_high_0_padj_low_005 r = ''False''
      \<and> b_log2FC_low_0_and_padj_low005 r = ''False'')
   \<and> (log2FC r = Fin 1 \<longrightarrow>
      log2FC_high_1_and_padj_low_001 r = []
      \<and> log2FC_higher_1_or_log2FC_low_minus_1_and_padj_001 r = []
      \<and> b_log2FC_high_1_and_padj_low_001 r = ''False''
      \<and> b_log2FC_higher_1_or_log2FC_low_minus_1_and_padj_001 r = ''False'')
   \<and> (log2FC r = Fin (- 1) \<longrightarrow>
      log2FC_low_minus_1_and_padj_low_001 r = []
      \<and> log2FC_higher_1_or_log2FC_low_minus_1_and_padj_001 r = []
      \<and> b_log2FC_low_minus_1_and_padj_low_001 r = ''False''
      \<and> b_log2FC_higher_1_or_log2FC_low_minus_1_and_padj_001 r = ''False'')"
  by (simp add: id_rendering_defs b_rendering_defs float_gt_def)

text \<open>
  The five thresholds on rows that pass every other test of the category, so that the
  threshold alone excludes them; the neighbouring category still holds.
\<close>

theorem thresholds_are_strict_witness:
  "Padj (mk_row ''g1'' 2 0.05) = Fin 0.05
   \<and> b_padj_low_005 (mk_row ''g1'' 2 0.05) = ''False''
   \<and> padj_low_005 (mk_row ''g1'' 2 0.05) = []
   \<and> Padj (mk_row ''g1'' 2 0.01) = Fin 0.01
   \<and> b_padj_low_001 (mk_row ''g1'' 2 0.01) = ''False''
   \<and> b_padj_low_005 (mk_row ''g1'' 2 0.01) = ''True''
   \<and> log2FC (mk_row ''g1'' 0 0.001) = Fin 0
   \<and> b_log2FC_high_0_padj_low_005 (mk_row ''g1'' 0 0.001) = ''False''
   \<and> log2FC (mk_row ''g1'' 1 0.001) = Fin 1
   \<and> b_log2FC_high_1_and_padj_low_001 (mk_row ''g1'' 1 0.001) = ''False''
   \<and> b_log2FC_high_0_padj_low_005 (mk_row ''g1'' 1 0.001) = ''True''
   \<and> log2FC (mk_row ''g1'' (- 1) 0.001) = Fin (- 1)
   \<and> b_log2FC_low_minus_1_and_padj_low_001 (mk_row ''g1'' (- 1) 0.001) = ''False''
   \<and> b_log2FC_low_0_and_padj_low005 (mk_row ''g1'' (- 1) 0.001) = ''True''"
  using thresholds_are_strict [of "mk_row ''g1'' 2 0.05"]
    thresholds_are_strict [of "mk_row ''g1'' 2 0.01"]
    thresholds_are_strict [of "mk_row ''g1'' 0 0.001"]
    thresholds_are_strict [of "mk_row ''g1'' 1 0.001"]
    thresholds_are_strict [of "mk_row ''g1'' (- 1) 0.001"]
  by (simp add: mk_row_def b_rendering_defs float_gt_def)

text \<open>
  Claim C3. Category 7 holds exactly when category 5 or category 6 holds: in the
  identifier rendering of the annotated table (non-empty means the category holds), in
  the boolean rendering of the expression tables, and in the row filters of the
  significant-only tables (whose seventh filter writes the two fold-change tests in the
  other order).
\<close>

theorem category7_is_union_of_5_and_6:
  "(log2FC_higher_1_or_log2FC_low_minus_1_and_padj_001 r \<noteq> [])
     = (log2FC_high_1_and_padj_low_001 r \<noteq> []
        \<or> log2FC_low_minus_1_and_padj_low_001 r \<noteq> [])
   \<and> (b_log2FC_higher_1_or_log2FC_low_minus_1_and_padj_001 r = ''True'')
     = (b_log2FC_high_1_and_padj_low_001 r = ''True''
        \<or> b_log2FC_low_minus_1_and_padj_low_001 r = ''True'')
   \<and> (sig_filters ! 6) r = ((sig_filters ! 4) r \<or> (sig_filters ! 5) r)"
  by (auto simp add: id_rendering_defs b_rendering_defs sig_filters_def)

theorem category7_is_union_of_5_and_6_witness:
  "log2FC_higher_1_or_log2FC_low_minus_1_and_padj_001 (mk_row ''g1'' (- 2) 0.001) = ''g1''
   \<and> log2FC_high_1_and_padj_low_001 (mk_row ''g1'' (- 2) 0.001) = []
   \<and> log2FC_low_minus_1_and_padj_low_001 (mk_row ''g1'' (- 2) 0.001) = ''g1''
   \<and> log2FC_higher_1_or_log2FC_low_minus_1_and_padj_001 (mk_row ''g1'' 2 0.001) = ''g1''
   \<and> log2FC_high_1_and_padj_low_001 (mk_row ''g1'' 2 0.001) = ''g1''
   \<and> log2FC_higher_1_or_log2FC_low_minus_1_and_padj_001 (mk_row ''g1'' 0.5 0.001) = []
   \<and> b_log2FC_higher_1_or_log2FC_low_minus_1_and_padj_001 (mk_row ''g1'' (- 2) 0.001) = ''True''
   \<and> b_log2FC_high_1_and_padj_low_001 (mk_row ''g1'' (- 2) 0.001) = ''False''
   \<and> b_log2FC_low_minus_1_and_padj_low_001 (mk_row ''g1'' (- 2) 0.001) = ''True''
   \<and> (sig_filters ! 6) (mk_row ''g1'' (- 2) 0.001)"
  using category7_is_union_of_5_and_6 [of "mk_row ''g1'' (- 2) 0.001"]
    category7_is_union_of_5_and_6 [of "mk_row ''g1'' 2 0.001"]
    category7_is_union_of_5_and_6 [of "mk_row ''g1'' 0.5 0.001"]
  by (simp add: mk_row_def id_rendering_defs b_rendering_defs float_gt_def sig_filters_def)

text \<open>
  Claim C10. The categories are nested: a row in category 5 is in categories 1, 2 and 4,
  a row in category 6 is in categories 1, 3 and 4, and a row in category 4 is in
  category 1. This holds of the boolean rendering and of the identifier rendering.
\<close>

theorem category_hierarchy:
  "(b_log2FC_high_1_and_padj_low_001 r = ''True'' \<longrightarrow>
      b_padj_low_005 r = ''True'' \<and> b_log2FC_high_0_padj_low_005 r = ''True''
      \<and> b_padj_low_001 r = ''True'')
   \<and> (b_log2FC_low_minus_1_and_padj_low_001 r = ''True'' \<longrightarrow>
      b_padj_low_005 r = ''True'' \<and> b_log2FC_low_0_and_padj_low005 r = ''True''
      \<and> b_padj_low_001 r = ''True'')
   \<and> (b_padj_low_001 r = ''True'' \<longrightarrow> b_padj_low_005 r = ''True'')
   \<and> (log2FC_high_1_and_padj_low_001 r \<noteq> [] \<longrightarrow>
      padj_low_005 r \<noteq> [] \<and> log2FC_high_0_padj_low_005 r \<noteq> []
      \<and> padj_low_001 r \<noteq> [])
   \<and> (log2FC_low_minus_1_and_padj_low_001 r \<noteq> [] \<longrightarrow>
      padj_low_005 r \<noteq> [] \<and> log2FC_low_0_and_padj_low005 r \<noteq> []
      \<and> padj_low_001 r \<noteq> [])
   \<and> (padj_low_001 r \<noteq> [] \<longrightarrow> padj_low_005 r \<noteq> [])"
proof -
  have p: "float_lt (Padj r) (Fin 0.01) \<Longrightarrow> float_lt (Padj r) (Fin 0.05)"
    using float_lt_Fin_trans [of "Padj r" "0.01" "0.05"] by simp
  have up: "float_gt (log2FC r) (Fin 1) \<Longrightarrow> float_gt (log2FC r) (Fin 0)"
    using float_gt_Fin_trans [of "log2FC r" 1 0] by simp
  have down: "float_lt (log2FC r) (Fin (- 1)) \<Longrightarrow> float_lt (log2FC r) (Fin 0)"
    using float_lt_Fin_trans [of "log2FC r" "- 1" 0] by simp
  show ?thesis
    using p up down by (simp add: id_rendering_defs b_rendering_defs)
qed

theorem category_hierarchy_witness:
  "b_log2FC_high_1_and_padj_low_001 (mk_row ''g1'' 2 0.001) = ''True''
   \<and> b_padj_low_005 (mk_row ''g1'' 2 0.001) = ''True''
   \<and> b_log2FC_high_0_padj_low_005 (mk_row ''g1'' 2 0.001) = ''True''
   \<and> b_padj_low_001 (mk_row ''g1'' 2 0.001) = ''True''
   \<and> log2FC_high_1_and_padj_low_001 (mk_row ''g1'' 2 0.001) \<noteq> []
   \<and> padj_low_001 (mk_row ''g1'' 2 0.001) \<noteq> []
   \<and> padj_low_005 (mk_row ''g1'' 2 0.001) \<noteq> []
   \<and> b_log2FC_low_minus_1_and_padj_low_001 (mk_row ''g1'' (- 2) 0.001) = ''True''
   \<and> b_log2FC_low_0_and_padj_low005 (mk_row ''g1'' (- 2) 0.001) = ''True''
   \<and> log2FC_low_minus_1_and_padj_low_001 (mk_row ''g1'' (- 2) 0.001) \<noteq> []
   \<and> log2FC_low_0_and_padj_low005 (mk_row ''g1'' (- 2) 0.001) \<noteq> []"
  using category_hierarchy [of "mk_row ''g1'' 2 0.001"]
    category_hierarchy [of "mk_row ''g1'' (- 2) 0.001"]
  by (simp add: mk_row_def id_rendering_defs b_rendering_defs float_gt_def)

text \<open>
  Claim C2, as stated: for every row, the identifier rendering of a category is non-empty
  exactly when its boolean rendering is \<open>"True"\<close>. The identifier rendering returns
  \<open>row[0]\<close>, so a row whose cleaned identifier is the empty string renders as empty in
  a category it belongs to. The input identifier \<open>"gene:"\<close> is such a row.
\<close>

theorem renderings_disagree_on_empty_identifier:
  "padj_low_005 (clean_row (mk_row ''gene:'' 2 0.001)) = []
   \<and> b_padj_low_005 (clean_row (mk_row ''gene:'' 2 0.001)) = ''True''"
  by (simp add: padj_low_005_def b_padj_low_005_def clean_row_def mk_row_def)

text \<open>
  Claim C2, amended: for every row whose identifier (column 0 as the classifier receives
  it, after the clean-up) is not the empty string, the identifier rendering of each of
  the seven categories is non-empty exactly when the boolean rendering of that category
  is \<open>"True"\<close>.
\<close>

theorem renderings_agree:
  assumes "GeneID r \<noteq> []"
  shows "(padj_low_005 r \<noteq> []) = (b_padj_low_005 r = ''True'')
    \<and> (log2FC_high_0_padj_low_005 r \<noteq> []) = (b_log2FC_high_0_padj_low_005 r = ''True'')
    \<and> (log2FC_low_0_and_padj_low005 r \<noteq> []) = (b_log2FC_low_0_and_padj_low005 r = ''True'')
    \<and> (padj_low_001 r \<noteq> []) = (b_padj_low_001 r = ''True'')
    \<and> (log2FC_high_1_and_padj_low_001 r \<noteq> [])
        = (b_log2FC_high_1_and_padj_low_001 r = ''True'')
    \<and> (log2FC_low_minus_1_and_padj_low_001 r \<noteq> [])
        = (b_log2FC_low_minus_1_and_padj_low_001 r = ''True'')
    \<and> (log2FC_higher_1_or_log2FC_low_minus_1_and_padj_001 r \<noteq> [])
        = (b_log2FC_higher_1_or_log2FC_low_minus_1_and_padj_001 r = ''True'')"
  using assms by (simp add: id_rendering_defs b_rendering_defs)

theorem renderings_agree_witness:
  "GeneID (clean_row (mk_row ''gene:AT1G01010'' 2 0.02)) \<noteq> []
   \<and> padj_low_005 (clean_row (mk_row ''gene:AT1G01010'' 2 0.02)) = ''AT1G01010''
   \<and> b_padj_low_005 (clean_row (mk_row ''gene:AT1G01010'' 2 0.02)) = ''True''
   \<and> padj_low_001 (clean_row (mk_row ''gene:AT1G01010'' 2 0.02)) = []
   \<and> b_padj_low_001 (clean_row (mk_row ''gene:AT1G01010'' 2 0.02)) = ''False''"
proof -
  have h: "GeneID (clean_row (mk_row ''gene:AT1G01010'' 2 0.02)) \<noteq> []"
    by (simp add: clean_row_def mk_row_def)
  show ?thesis
    using h renderings_agree [OF h]
    by (simp add: clean_row_def mk_row_def id_rendering_defs b_rendering_defs)
qed

section \<open>Identifier clean-up and the direct join key\<close>

lemma re_sub_gene_id: "\<not> sublist ''gene:'' s \<Longrightarrow> re_sub_gene s = s"
proof (induction s)
  case Nil
  show ?case by simp
next
  case (Cons c cs)
  from Cons.prems have "\<not> prefix ''gene:'' (c # cs)" and "\<not> sublist ''gene:'' cs"
    by (simp_all add: sublist_Cons_right del: Cons_prefix_Cons)
  with Cons.IH show ?case by (simp del: Cons_prefix_Cons)
qed

text \<open>
  On an identifier without \<open>"gene:"\<close>, and on such an identifier behind the prefix
  \<open>"gene:"\<close>, the clean-up does what a removal of the prefix does, and a second
  clean-up changes nothing.
\<close>

lemma normalize_direct_plain_ids:
  assumes "\<not> sublist ''gene:'' y"
  shows "normalize_direct y = y" and "normalize_direct (''gene:'' @ y) = y"
    and "normalize_direct (normalize_direct (''gene:'' @ y)) = normalize_direct (''gene:'' @ y)"
  using assms by (simp_all add: normalize_direct_def re_sub_gene_id)

text \<open>
  Claim C4. The claim: the clean-up removes \<open>"gene:"\<close> only where the identifier starts
  with it, and leaves an occurrence elsewhere in place. The source's comment says the
  same ("Remove 'gene:' prefix from GeneID strings"), but the regular expression has no
  anchor: the program deletes the five characters wherever they occur.
\<close>

theorem replace_removes_inner_occurrence:
  "re_sub_gene ''pseudogene:AT1G01010'' = ''pseudoAT1G01010''
   \<and> map GeneID (replace_col0 [mk_row ''pseudogene:AT1G01010'' 2 0.001]) = [''pseudoAT1G01010'']"
  by (simp add: replace_col0_def clean_row_def mk_row_def)

text \<open>
  Claim C8. The claim: under the direct mode, normalizing the output of a normalization
  changes nothing. A removal of the prefix, which the source's comment announces, leaves
  \<open>"gegene:ne:AT1G01010"\<close> as it is. The program deletes the inner \<open>"gene:"\<close> (the
  defect of claim C4), which brings the two halves of a new \<open>"gene:"\<close> together, and a
  second normalization removes that one too.
\<close>

theorem direct_not_idempotent:
  "normalize_direct ''gegene:ne:AT1G01010'' = ''gene:AT1G01010''
   \<and> normalize_direct (normalize_direct ''gegene:ne:AT1G01010'') = ''AT1G01010''"
  by (simp add: normalize_direct_def)

section \<open>The locus split\<close>

lemma py_split_length: "length (py_split sep s) = Suc (count_list s sep)"
  by (induction s) (auto split: list.splits)

lemma py_split_no_sep: "sep \<notin> set s \<Longrightarrow> py_split sep s = [s]"
  by (induction s) auto

lemma py_split_one_sep:
  "count_list s sep = 1 \<Longrightarrow>
   py_split sep s = [takeWhile (\<lambda>x. x \<noteq> sep) s, tl (dropWhile (\<lambda>x. x \<noteq> sep) s)]"
proof (induction s)
  case Nil
  then show ?case by simp
next
  case (Cons c cs)
  show ?case
  proof (cases "c = sep")
    case True
    with Cons.prems have "sep \<notin> set cs" by (simp add: count_list_0_iff)
    with True show ?thesis by (simp add: py_split_no_sep)
  next
    case False
    with Cons show ?thesis by simp
  qed
qed

lemma ncols_le: "(ncols ps \<le> n) = (\<forall>p\<in>set ps. length p \<le> n)"
  by (induction ps) (auto simp: ncols_def)

lemma ncols_ge: "p \<in> set ps \<Longrightarrow> length p \<le> ncols ps"
  using ncols_le [of ps "ncols ps"] by simp

lemma ncols_const: "ps \<noteq> [] \<Longrightarrow> \<forall>p\<in>set ps. length p = w \<Longrightarrow> ncols ps = w"
proof -
  assume ne: "ps \<noteq> []" and all: "\<forall>p\<in>set ps. length p = w"
  then obtain p where "p \<in> set ps" by (cases ps) auto
  with all have "w \<le> ncols ps" using ncols_ge by fastforce
  moreover from all have "ncols ps \<le> w" by (simp add: ncols_le)
  ultimately show ?thesis by simp
qed

lemma pad_row_length: "length p \<le> w \<Longrightarrow> length (pad_row w p) = w"
  by (simp add: pad_row_def)

lemma ncols_pad:
  assumes "ps \<noteq> []" and "\<forall>p\<in>set ps. length p \<le> w"
  shows "ncols (map (pad_row w) ps) = w"
  using assms by (intro ncols_const) (auto simp: pad_row_length)

lemma locus_cols_at_most_one_dot:
  assumes ne: "col \<noteq> []"
    and one: "\<forall>c\<in>set col. count_list c CHR ''.'' \<le> 1"
  shows "if \<exists>c\<in>set col. CHR ''.'' \<in> set c
         then locus_cols SpeciesS col =
                Inr (map (\<lambda>c. if CHR ''.'' \<in> set c
                               then (Some (takeWhile (\<lambda>x. x \<noteq> CHR ''.'') c),
                                     Some (tl (dropWhile (\<lambda>x. x \<noteq> CHR ''.'') c)))
                               else (Some c, None)) col)
         else locus_cols SpeciesS col = Inl ValueError"
proof -
  let ?parts = "map (py_split CHR ''.'') col"
  have pne: "?parts \<noteq> []" using ne by simp
  show ?thesis
  proof (cases "\<exists>c\<in>set col. CHR ''.'' \<in> set c")
    case True
    then obtain c where c: "c \<in> set col" "CHR ''.'' \<in> set c" by blast
    with one have "count_list c CHR ''.'' = 1"
      using count_list_0_iff [of c "CHR ''.''"] by fastforce
    then have "length (py_split CHR ''.'' c) = 2" by (simp add: py_split_length)
    with c have "2 \<le> ncols ?parts" using ncols_ge [of "py_split CHR ''.'' c" ?parts] by simp
    moreover have le2: "\<forall>p\<in>set ?parts. length p \<le> 2"
      using one by (auto simp: py_split_length)
    then have "ncols ?parts \<le> 2" by (simp only: ncols_le)
    ultimately have w: "ncols ?parts = 2" by simp
    have t: "ncols (map (pad_row 2) ?parts) = 2"
      using pne le2 by (rule ncols_pad)
    have cell: "(pad_row 2 (py_split CHR ''.'' d) ! 0, pad_row 2 (py_split CHR ''.'' d) ! 1)
        = (if CHR ''.'' \<in> set d
           then (Some (takeWhile (\<lambda>x. x \<noteq> CHR ''.'') d),
                 Some (tl (dropWhile (\<lambda>x. x \<noteq> CHR ''.'') d)))
           else (Some d, None))" if d: "d \<in> set col" for d
    proof (cases "CHR ''.'' \<in> set d")
      case True
      with one d have "count_list d CHR ''.'' = 1"
        using count_list_0_iff [of d "CHR ''.''"] by fastforce
      with True show ?thesis by (simp add: py_split_one_sep pad_row_def)
    next
      case False
      then show ?thesis by (simp add: py_split_no_sep pad_row_def)
    qed
    have m: "map (\<lambda>p. (p ! 0, p ! 1)) (map (pad_row 2) ?parts)
        = map (\<lambda>c. if CHR ''.'' \<in> set c
                     then (Some (takeWhile (\<lambda>x. x \<noteq> CHR ''.'') c),
                           Some (tl (dropWhile (\<lambda>x. x \<noteq> CHR ''.'') c)))
                     else (Some c, None)) col"
      unfolding map_map o_def by (rule map_cong [OF refl]) (rule cell)
    have "locus_cols SpeciesS col = setitem_7_8 (map (pad_row 2) ?parts)"
      using w by (simp add: locus_cols_def str_split_expand_def Let_def)
    also have "\<dots> = Inr (map (\<lambda>p. (p ! 0, p ! 1)) (map (pad_row 2) ?parts))"
      unfolding setitem_7_8_def t by simp
    finally show ?thesis using True m by simp
  next
    case False
    then have all1: "\<forall>p\<in>set ?parts. length p = 1" by (auto simp: py_split_no_sep)
    with pne have w: "ncols ?parts = 1" by (rule ncols_const)
    from all1 have "\<forall>p\<in>set ?parts. length p \<le> 1" by simp
    with pne have "ncols (map (pad_row 1) ?parts) = 1" by (rule ncols_pad)
    with False w show ?thesis
      by (simp add: locus_cols_def str_split_expand_def setitem_7_8_def)
  qed
qed

lemma map2_same: "map (\<lambda>(r, c). F r c) (zip xs (map g xs)) = map (\<lambda>x. F x (g x)) xs"
  by (induction xs) simp_all

lemma takeWhile_no_sep: "sep \<notin> set c \<Longrightarrow> takeWhile (\<lambda>x. x \<noteq> sep) c = c"
  by (induction c) auto

text \<open>
  Claim C5, as stated: under the mode \<open>"S"\<close>, an identifier with a dot is split at its
  first dot and an identifier without a dot makes the normalization fail. The program
  splits the whole column at once and assigns the resulting table to two columns: an
  identifier without a dot is kept, with no version, when another identifier of the file
  has one; and the split is at every dot, so that an identifier with two dots makes the
  assignment fail.
\<close>

theorem locus_split_no_dot_kept:
  "locus_cols SpeciesS [''Solyc01g000100.2'', ''Solyc01g000200'']
     = Inr [(Some ''Solyc01g000100'', Some ''2''), (Some ''Solyc01g000200'', None)]
   \<and> locus_cols SpeciesS [''Solyc01g000100.2.1''] = Inl ValueError"
  by (simp add: locus_cols_def str_split_expand_def setitem_7_8_def ncols_def pad_row_def)

text \<open>
  Claim C5, amended: under the mode \<open>"S"\<close> the split is applied at once to the
  identifier column that a pass hands to it (the annotated pass and the significant-only
  pass each split the column of their own frame). For such a column with at least one
  row in which every cleaned identifier has at most one dot: when some identifier has a
  dot, every identifier with a dot is split at it into locus and version and its join key
  is the locus, and every identifier without a dot is kept whole as its join key, with no
  version; when no identifier of the column has a dot, the step fails with an error and
  the pass with it.
\<close>

theorem locus_split_at_most_one_dot:
  assumes ne: "col \<noteq> []"
    and one: "\<forall>c\<in>set col. count_list c CHR ''.'' \<le> 1"
  shows "(if \<exists>c\<in>set col. CHR ''.'' \<in> set c
          then locus_cols SpeciesS col =
                 Inr (map (\<lambda>c. if CHR ''.'' \<in> set c
                                then (Some (takeWhile (\<lambda>x. x \<noteq> CHR ''.'') c),
                                      Some (tl (dropWhile (\<lambda>x. x \<noteq> CHR ''.'') c)))
                                else (Some c, None)) col)
          else locus_cols SpeciesS col = Inl ValueError)
     \<and> (col = map GeneID (replace_col0 input) \<longrightarrow>
          (if \<exists>c\<in>set col. CHR ''.'' \<in> set c
           then \<exists>d. annotated_table SpeciesS input = Inr d
                  \<and> map base d = replace_col0 input
                  \<and> map (join_key SpeciesS) d
                      = map (\<lambda>c. Some (takeWhile (\<lambda>x. x \<noteq> CHR ''.'') c)) col
                  \<and> map Last d
                      = map (\<lambda>c. if CHR ''.'' \<in> set c
                                  then Some (tl (dropWhile (\<lambda>x. x \<noteq> CHR ''.'') c))
                                  else None) col
           else annotated_table SpeciesS input = Inl ValueError))
     \<and> (col = map GeneID (replace_col0 (drop 1 input)) \<longrightarrow>
          (if \<exists>c\<in>set col. CHR ''.'' \<in> set c
           then \<exists>d. sig_table SpeciesS input = Inr d
                  \<and> map sbase d = replace_col0 (drop 1 input)
                  \<and> map (sig_key SpeciesS) d
                      = map (\<lambda>c. Some (takeWhile (\<lambda>x. x \<noteq> CHR ''.'') c)) col
           else sig_table SpeciesS input = Inl ValueError))"
proof -
  let ?f = "\<lambda>c. if CHR ''.'' \<in> set c
                 then (Some (takeWhile (\<lambda>x. x \<noteq> CHR ''.'') c),
                       Some (tl (dropWhile (\<lambda>x. x \<noteq> CHR ''.'') c)))
                 else (Some c, None)"
  have col: "if \<exists>c\<in>set col. CHR ''.'' \<in> set c
      then locus_cols SpeciesS col = Inr (map ?f col)
      else locus_cols SpeciesS col = Inl ValueError"
    using locus_cols_at_most_one_dot [OF ne one] .
  have fst_f: "fst (?f c) = Some (takeWhile (\<lambda>x. x \<noteq> CHR ''.'') c)" for c
    by (simp add: takeWhile_no_sep)
  have snd_f: "snd (?f c) = (if CHR ''.'' \<in> set c
      then Some (tl (dropWhile (\<lambda>x. x \<noteq> CHR ''.'') c)) else None)" for c
    by simp
  have p1: "col = map GeneID (replace_col0 input) \<Longrightarrow> \<exists>c\<in>set col. CHR ''.'' \<in> set c \<Longrightarrow>
      \<exists>d. annotated_table SpeciesS input = Inr d
        \<and> map base d = replace_col0 input
        \<and> map (join_key SpeciesS) d = map (\<lambda>c. Some (takeWhile (\<lambda>x. x \<noteq> CHR ''.'') c)) col
        \<and> map Last d = map (\<lambda>c. if CHR ''.'' \<in> set c
             then Some (tl (dropWhile (\<lambda>x. x \<noteq> CHR ''.'') c)) else None) col"
  proof -
    assume c: "col = map GeneID (replace_col0 input)" and ex: "\<exists>c\<in>set col. CHR ''.'' \<in> set c"
    from col ex have l: "locus_cols SpeciesS (map GeneID (replace_col0 input))
        = Inr (map ?f (map GeneID (replace_col0 input)))"
      unfolding c by simp
    have "annotated_table SpeciesS input
        = Inr (map (\<lambda>r. \<lparr>base = r, loc = fst (?f (GeneID r)), Last = snd (?f (GeneID r)),
                          cats = map (\<lambda>g. g r) id_renderings\<rparr>) (replace_col0 input))"
      unfolding annotated_table_def Let_def l by (simp add: map2_same)
    then show ?thesis
      unfolding c by (simp only: fst_f snd_f) (simp add: o_def join_key_def)
  qed
  have p3: "col = map GeneID (replace_col0 (drop 1 input)) \<Longrightarrow> \<exists>c\<in>set col. CHR ''.'' \<in> set c \<Longrightarrow>
      \<exists>d. sig_table SpeciesS input = Inr d
        \<and> map sbase d = replace_col0 (drop 1 input)
        \<and> map (sig_key SpeciesS) d = map (\<lambda>c. Some (takeWhile (\<lambda>x. x \<noteq> CHR ''.'') c)) col"
  proof -
    assume c: "col = map GeneID (replace_col0 (drop 1 input))"
      and ex: "\<exists>c\<in>set col. CHR ''.'' \<in> set c"
    from col ex have l: "locus_cols SpeciesS (map GeneID (replace_col0 (drop 1 input)))
        = Inr (map ?f (map GeneID (replace_col0 (drop 1 input))))"
      unfolding c by simp
    have "sig_table SpeciesS input
        = Inr (map (\<lambda>r. \<lparr>sbase = r, locus = fst (?f (GeneID r))\<rparr>) (replace_col0 (drop 1 input)))"
      unfolding sig_table_def Let_def l by (simp add: map2_same)
    then show ?thesis
      unfolding c by (simp only: fst_f) (simp add: o_def sig_key_def)
  qed
  have e1: "col = map GeneID (replace_col0 input) \<Longrightarrow> \<not> (\<exists>c\<in>set col. CHR ''.'' \<in> set c) \<Longrightarrow>
      annotated_table SpeciesS input = Inl ValueError"
    using col by (simp add: annotated_table_def Let_def)
  have e3: "col = map GeneID (replace_col0 (drop 1 input)) \<Longrightarrow>
      \<not> (\<exists>c\<in>set col. CHR ''.'' \<in> set c) \<Longrightarrow> sig_table SpeciesS input = Inl ValueError"
    using col by (simp add: sig_table_def Let_def)
  show ?thesis
    using col p1 p3 e1 e3 by presburger
qed

theorem locus_split_at_most_one_dot_witness:
  "map GeneID (replace_col0 two_rows_S) = [''Solyc01g000100.2'', ''Solyc01g000200.1'']
   \<and> count_list ''Solyc01g000100.2'' CHR ''.'' = 1
   \<and> count_list ''Solyc01g000200.1'' CHR ''.'' = 1
   \<and> map_sum id (map (\<lambda>a. (join_key SpeciesS a, Last a))) (annotated_table SpeciesS two_rows_S)
       = Inr [(Some ''Solyc01g000100'', Some ''2''), (Some ''Solyc01g000200'', Some ''1'')]
   \<and> map GeneID (replace_col0 (drop 1 two_rows_S)) = [''Solyc01g000200.1'']
   \<and> map_sum id (map (sig_key SpeciesS)) (sig_table SpeciesS two_rows_S)
       = Inr [Some ''Solyc01g000200'']
   \<and> count_list ''Solyc01g000200'' CHR ''.'' = 0
   \<and> locus_cols SpeciesS [''Solyc01g000100.2'', ''Solyc01g000200'']
       = Inr [(Some ''Solyc01g000100'', Some ''2''), (Some ''Solyc01g000200'', None)]
   \<and> map GeneID (replace_col0 no_dot_rows) = [''Solyc01g000100'', ''Solyc01g000200'']
   \<and> annotated_table SpeciesS no_dot_rows = Inl ValueError
   \<and> sig_table SpeciesS no_dot_rows = Inl ValueError"
proof -
  have c1: "map GeneID (replace_col0 two_rows_S) = [''Solyc01g000100.2'', ''Solyc01g000200.1'']"
    by code_simp
  have c3: "map GeneID (replace_col0 (drop 1 two_rows_S)) = [''Solyc01g000200.1'']"
    by code_simp
  have n1: "map GeneID (replace_col0 no_dot_rows) = [''Solyc01g000100'', ''Solyc01g000200'']"
    by code_simp
  have k: "count_list ''Solyc01g000100.2'' CHR ''.'' = 1"
    "count_list ''Solyc01g000200.1'' CHR ''.'' = 1" "count_list ''Solyc01g000200'' CHR ''.'' = 0"
    by simp_all
  have h1: "\<forall>c\<in>set (map GeneID (replace_col0 two_rows_S)). count_list c CHR ''.'' \<le> 1"
    unfolding c1 by simp
  have h4: "\<forall>c\<in>set (map GeneID (replace_col0 no_dot_rows)). count_list c CHR ''.'' \<le> 1"
    unfolding n1 by simp
  have d1: "\<exists>c\<in>set (map GeneID (replace_col0 two_rows_S)). CHR ''.'' \<in> set c"
    unfolding c1 by simp
  have d4: "\<not> (\<exists>c\<in>set (map GeneID (replace_col0 no_dot_rows)). CHR ''.'' \<in> set c)"
    unfolding n1 by simp
  have ne1: "map GeneID (replace_col0 two_rows_S) \<noteq> []" unfolding c1 by simp
  have ne4: "map GeneID (replace_col0 no_dot_rows) \<noteq> []" unfolding n1 by simp
  from locus_split_at_most_one_dot [OF ne1 h1, of two_rows_S] d1
  have "\<exists>d. annotated_table SpeciesS two_rows_S = Inr d" by auto
  moreover from locus_split_at_most_one_dot [OF ne4 h4, of no_dot_rows] d4
  have "annotated_table SpeciesS no_dot_rows = Inl ValueError" by auto
  moreover have "map_sum id (map (\<lambda>a. (join_key SpeciesS a, Last a)))
      (annotated_table SpeciesS two_rows_S)
      = Inr [(Some ''Solyc01g000100'', Some ''2''), (Some ''Solyc01g000200'', Some ''1'')]"
    by code_simp
  moreover have "map_sum id (map (sig_key SpeciesS)) (sig_table SpeciesS two_rows_S)
      = Inr [Some ''Solyc01g000200'']"
    by code_simp
  moreover have "locus_cols SpeciesS [''Solyc01g000100.2'', ''Solyc01g000200'']
      = Inr [(Some ''Solyc01g000100'', Some ''2''), (Some ''Solyc01g000200'', None)]"
    by code_simp
  moreover have "sig_table SpeciesS no_dot_rows = Inl ValueError"
    by code_simp
  ultimately show ?thesis
    using c1 c3 n1 k by blast
qed

section \<open>The annotation join\<close>

lemma filter_key_distinct:
  "distinct (map fst ann) \<Longrightarrow>
   filter (\<lambda>a. fst a = k) ann = (case map_of ann k of None \<Rightarrow> [] | Some v \<Rightarrow> [(k, v)])"
proof (induction ann)
  case Nil
  show ?case by simp
next
  case (Cons a ann)
  obtain k' v' where a: "a = (k', v')" by (cases a)
  from Cons.prems a have notin: "k' \<notin> fst ` set ann" and d: "distinct (map fst ann)"
    by simp_all
  show ?case
  proof (cases "k' = k")
    case True
    with notin have "filter (\<lambda>a. fst a = k) ann = []"
      by (auto simp: filter_empty_conv)
    with True a show ?thesis by simp
  next
    case False
    with a Cons.IH [OF d] show ?thesis by simp
  qed
qed

lemma merge_left_distinct:
  assumes "distinct (map fst ann)"
  shows "merge_left key df ann = map (\<lambda>l. (l, map_of ann (key l))) df"
proof -
  have "\<And>l. (case filter (\<lambda>a. fst a = key l) ann of [] \<Rightarrow> [(l, None)]
              | ms \<Rightarrow> map (\<lambda>a. (l, Some (snd a))) ms) = [(l, map_of ann (key l))]"
    by (simp add: filter_key_distinct [OF assms] split: option.split)
  then show ?thesis
    by (induction df) (simp_all add: merge_left_def)
qed

lemma read_csv_col_length: "length (snd (read_csv_col written)) = length written"
  by (simp add: read_csv_col_def Let_def)

lemma ann_cell_inj: "inj ann_cell"
  by (auto simp: inj_on_def ann_cell_def split: option.splits)

lemma ann_cells_distinct:
  "distinct (map fst ann) \<Longrightarrow> distinct (map fst (map (\<lambda>(k, v). (ann_cell k, v)) ann))"
proof -
  assume d: "distinct (map fst ann)"
  have "map fst (map (\<lambda>(k, v). (ann_cell k, v)) ann) = map ann_cell (map fst ann)"
    by (simp add: split_def o_def)
  with d show ?thesis
    using inj_on_subset [OF ann_cell_inj subset_UNIV, of "set (map fst ann)"]
    by (simp add: distinct_map del: map_map)
qed

lemma pd_merge_left_rows:
  assumes d: "distinct (map fst ann)"
    and len: "length written = length df"
    and res: "pd_merge_left written df ann = Inr out"
  shows "map fst out = df
    \<and> map snd out = map (map_of (map (\<lambda>(k, v). (ann_cell k, v)) ann)) (snd (read_csv_col written))"
proof -
  obtain dt keys where r: "read_csv_col written = (dt, keys)" by (cases "read_csv_col written")
  then have k: "length keys = length df"
    using read_csv_col_length [of written] len by simp
  from res r have out: "out = map (\<lambda>(lk, a). (fst lk, a))
      (merge_left snd (zip df keys) (map (\<lambda>(k, v). (ann_cell k, v)) ann))"
    by (simp add: pd_merge_left_def split: if_splits)
  have m: "merge_left snd (zip df keys) (map (\<lambda>(k, v). (ann_cell k, v)) ann)
      = map (\<lambda>l. (l, map_of (map (\<lambda>(k, v). (ann_cell k, v)) ann) (snd l))) (zip df keys)"
    by (rule merge_left_distinct [OF ann_cells_distinct [OF d]])
  have "map fst out = map fst (zip df keys)"
    unfolding out m by (simp add: o_def split_def)
  moreover have "map snd out
      = map (map_of (map (\<lambda>(k, v). (ann_cell k, v)) ann)) (map snd (zip df keys))"
    unfolding out m by (simp add: o_def split_def)
  ultimately show ?thesis using k r by simp
qed

lemma locus_cols_length:
  "locus_cols sp col = Inr cols \<Longrightarrow> length cols = length col"
  by (cases sp) (auto simp: locus_cols_def setitem_7_8_def str_split_expand_def Let_def
      split: if_splits)

lemma annotated_table_rows:
  "annotated_table sp input = Inr d \<Longrightarrow> map base d = replace_col0 input"
  by (auto simp: annotated_table_def Let_def split_def o_def
      split: sum.splits dest!: locus_cols_length intro!: nth_equalityI)

lemma sig_table_rows:
  "sig_table sp input = Inr d \<Longrightarrow> map sbase d = replace_col0 (drop 1 input)"
  by (auto simp: sig_table_def Let_def split_def o_def
      split: sum.splits dest!: locus_cols_length intro!: nth_equalityI)

text \<open>
  Claim C7, as stated: for every input record and every annotation table with unique
  keys the join produces exactly one joined record, in both species modes. A pass that
  fails produces no record at all. Under \<open>"S"\<close> the split of the locus column fails on
  a file in which no identifier has a version suffix; and the merge itself refuses a key
  column that was read back from the intermediate file as numbers when the annotation
  keys are strings.
\<close>

theorem join_emits_no_record_on_failure:
  "distinct (map fst small_annotation)
   \<and> annotate_file SpeciesS no_dot_rows small_annotation = Inl ValueError
   \<and> annotate_file SpeciesA digit_rows small_annotation = Inl ValueError"
  by (simp add: annotate_file_def annotated_table_def no_dot_rows_def digit_rows_def
      small_annotation_def replace_col0_def clean_row_def mk_row_def locus_cols_def
      str_split_expand_def setitem_7_8_def ncols_def pad_row_def join_key_def Let_def
      pd_merge_left_def read_csv_col_def token_def na_token_def na_values_def
      float_token_def bool_token_def int_token_def drop_sign_def is_digit_def lower_def
      merge_raises_def)

text \<open>
  Claim C7, amended: for every input file and every annotation table with unique keys,
  in both species modes, whenever the annotated pass completes it has produced exactly
  one joined record for each record of the input file, in the order of the file: the
  record with the annotation found under its join key as that key was read back from the
  intermediate file, or with no annotation (null annotation columns) when the table has
  no such key; no record is dropped. In the same way, whenever the significant-only pass
  completes its merge, the merged frame has exactly one row for each row of the frame
  that pass had prepared.
\<close>

theorem left_join_keeps_every_row:
  assumes "distinct (map fst annotation_file)"
  shows "(\<forall>out. annotate_file sp input annotation_file = Inr out \<longrightarrow>
           annotated_table sp input = Inr (map fst out)
           \<and> map (\<lambda>j. base (fst j)) out = replace_col0 input
           \<and> map snd out
               = map (map_of (map (\<lambda>(k, v). (ann_cell k, v)) annotation_file))
                   (snd (read_csv_col
                      (case sp of
                         SpeciesA \<Rightarrow> map (\<lambda>j. Some (GeneID (base (fst j)))) out
                       | SpeciesS \<Rightarrow> map (\<lambda>j. loc (fst j)) out))))
     \<and> (\<forall>out. sig_joined sp input annotation_file = Inr out \<longrightarrow>
           sig_table sp input = Inr (map fst out)
           \<and> map snd out
               = map (map_of (map (\<lambda>(k, v). (ann_cell k, v)) annotation_file))
                   (snd (read_csv_col
                      (case sp of
                         SpeciesA \<Rightarrow> map (\<lambda>j. Some (GeneID (sbase (fst j)))) out
                       | SpeciesS \<Rightarrow> map (\<lambda>j. locus (fst j)) out))))"
proof (intro conjI allI impI)
  fix out
  assume a: "annotate_file sp input annotation_file = Inr out"
  then obtain d where d: "annotated_table sp input = Inr d"
    and m: "pd_merge_left (map (join_key sp) d) d annotation_file = Inr out"
    by (auto simp: annotate_file_def split: sum.splits)
  from pd_merge_left_rows [OF assms _ m]
  have f: "map fst out = d"
    and s: "map snd out = map (map_of (map (\<lambda>(k, v). (ann_cell k, v)) annotation_file))
        (snd (read_csv_col (map (join_key sp) d)))"
    by simp_all
  from d f show "annotated_table sp input = Inr (map fst out)" by simp
  from annotated_table_rows [OF d] f
  show "map (\<lambda>j. base (fst j)) out = replace_col0 input" by (auto simp: o_def)
  have "map (join_key sp) d
      = (case sp of SpeciesA \<Rightarrow> map (\<lambda>j. Some (GeneID (base (fst j)))) out
         | SpeciesS \<Rightarrow> map (\<lambda>j. loc (fst j)) out)"
    using f by (cases sp) (auto simp: join_key_def o_def)
  with s show "map snd out
      = map (map_of (map (\<lambda>(k, v). (ann_cell k, v)) annotation_file))
          (snd (read_csv_col
             (case sp of SpeciesA \<Rightarrow> map (\<lambda>j. Some (GeneID (base (fst j)))) out
              | SpeciesS \<Rightarrow> map (\<lambda>j. loc (fst j)) out)))"
    by simp
next
  fix out
  assume a: "sig_joined sp input annotation_file = Inr out"
  then obtain d where d: "sig_table sp input = Inr d"
    and m: "pd_merge_left (map (sig_key sp) d) d annotation_file = Inr out"
    by (auto simp: sig_joined_def split: sum.splits)
  from pd_merge_left_rows [OF assms _ m]
  have f: "map fst out = d"
    and s: "map snd out = map (map_of (map (\<lambda>(k, v). (ann_cell k, v)) annotation_file))
        (snd (read_csv_col (map (sig_key sp) d)))"
    by simp_all
  from d f show "sig_table sp input = Inr (map fst out)" by simp
  have "map (sig_key sp) d
      = (case sp of SpeciesA \<Rightarrow> map (\<lambda>j. Some (GeneID (sbase (fst j)))) out
         | SpeciesS \<Rightarrow> map (\<lambda>j. locus (fst j)) out)"
    using f by (cases sp) (auto simp: sig_key_def o_def)
  with s show "map snd out
      = map (map_of (map (\<lambda>(k, v). (ann_cell k, v)) annotation_file))
          (snd (read_csv_col
             (case sp of SpeciesA \<Rightarrow> map (\<lambda>j. Some (GeneID (sbase (fst j)))) out
              | SpeciesS \<Rightarrow> map (\<lambda>j. locus (fst j)) out)))"
    by simp
qed

theorem left_join_keeps_every_row_witness:
  "distinct (map fst small_annotation)
   \<and> map_sum id (map (\<lambda>j. (GeneID (base (fst j)), snd j)))
         (annotate_file SpeciesA two_rows small_annotation)
       = Inr [(''AT1G01010'', None), (''AT1G01020'', Some ''kinase'')]
   \<and> map_sum id (map (\<lambda>j. (GeneID (base (fst j)), snd j)))
         (annotate_file SpeciesS two_rows_S small_annotation)
       = Inr [(''Solyc01g000100.2'', Some ''transporter''), (''Solyc01g000200.1'', None)]
   \<and> map_sum id (map (\<lambda>j. (GeneID (sbase (fst j)), snd j)))
         (sig_joined SpeciesA two_rows small_annotation)
       = Inr [(''AT1G01020'', Some ''kinase'')]"
proof -
  have h: "distinct (map fst small_annotation)"
    by (simp add: small_annotation_def)
  have a: "map_sum id (map (\<lambda>j. (GeneID (base (fst j)), snd j)))
        (annotate_file SpeciesA two_rows small_annotation)
      = Inr [(''AT1G01010'', None), (''AT1G01020'', Some ''kinase'')]"
    by code_simp
  then obtain out where out: "annotate_file SpeciesA two_rows small_annotation = Inr out"
    by (cases "annotate_file SpeciesA two_rows small_annotation") auto
  from left_join_keeps_every_row [OF h, of SpeciesA two_rows] out
  have "map (\<lambda>j. base (fst j)) out = replace_col0 two_rows" by blast
  moreover have "map_sum id (map (\<lambda>j. (GeneID (base (fst j)), snd j)))
        (annotate_file SpeciesS two_rows_S small_annotation)
      = Inr [(''Solyc01g000100.2'', Some ''transporter''), (''Solyc01g000200.1'', None)]"
    by code_simp
  moreover have "map_sum id (map (\<lambda>j. (GeneID (sbase (fst j)), snd j)))
        (sig_joined SpeciesA two_rows small_annotation)
      = Inr [(''AT1G01020'', Some ''kinase'')]"
    by code_simp
  ultimately show ?thesis
    using h a by blast
qed

section \<open>Whole passes\<close>

text \<open>
  Claim C9. Scenario A: the row \<open>gene:Solyc01g000100.2 120.5 1.3 0.2 6.5 0.0001 0.002\<close>
  as a file of its own under the mode \<open>"S"\<close> has the cleaned identifier
  \<open>Solyc01g000100.2\<close> and the join key \<open>Solyc01g000100\<close>; categories 1, 2, 4, 5 and 7
  hold and categories 3 and 6 do not, in the identifier rendering of the annotated table
  and in the boolean rendering of the expression tables.
\<close>

theorem scenario_A_holds:
  "\<exists>a. annotated_table SpeciesS [scenario_A] = Inr [a]
     \<and> GeneID (base a) = ''Solyc01g000100.2''
     \<and> join_key SpeciesS a = Some ''Solyc01g000100''
     \<and> Last a = Some ''2''
     \<and> cats a = [''Solyc01g000100.2'', ''Solyc01g000100.2'', [], ''Solyc01g000100.2'',
                 ''Solyc01g000100.2'', [], ''Solyc01g000100.2'']
     \<and> map (map snd) (expression_file [scenario_A])
         = [[''True''], [''True''], [''False''], [''True''], [''True''], [''False''], [''True'']]"
  by (simp add: annotated_table_def replace_col0_def clean_row_def scenario_A_def
      locus_cols_def str_split_expand_def setitem_7_8_def ncols_def pad_row_def
      join_key_def id_renderings_def id_rendering_defs expression_file_def
      b_renderings_def b_rendering_defs float_gt_def Let_def)

text \<open>
  Claim C6. The claim: the three passes work on the same rows of an input file. The
  third pass removes the first row of the frame before anything else (the comment says
  "drop if present" of a header row, the code drops the row in any case), while the first
  two passes keep it: on a file of two rows without a header, the annotated table and
  the seven expression tables hold both genes, and the significant-only pass sees the
  second gene only, although the first is significant.
\<close>

theorem sig_pass_drops_first_row:
  "map_sum id (map (\<lambda>j. GeneID (base (fst j)))) (annotate_file SpeciesA two_rows small_annotation)
     = Inr [''AT1G01010'', ''AT1G01020'']
   \<and> map (map fst) (expression_file two_rows) = replicate 7 [''AT1G01010'', ''AT1G01020'']
   \<and> map_sum id (map (\<lambda>j. GeneID (sbase (fst j)))) (sig_joined SpeciesA two_rows small_annotation)
     = Inr [''AT1G01020'']
   \<and> map_sum id (map (map (\<lambda>j. GeneID (sbase (fst j))))) (sig_file SpeciesA two_rows small_annotation)
     = Inr [[''AT1G01020''], [], [''AT1G01020''], [''AT1G01020''], [], [''AT1G01020''],
            [''AT1G01020'']]"
  by (simp add: annotate_file_def annotated_table_def sig_joined_def sig_file_def
      expression_file_def two_rows_def small_annotation_def replace_col0_def clean_row_def
      mk_row_def locus_cols_def merge_left_def join_key_def sig_key_def sig_filters_def
      b_renderings_def float_gt_def Let_def numeral_eq_Suc sig_table_def pd_merge_left_def
      read_csv_col_def token_def na_token_def na_values_def float_token_def bool_token_def
      int_token_def drop_sign_def is_digit_def lower_def merge_raises_def ann_cell_def)

end
